theory Spec2Isabelle
  imports Complex_Main "HOL-Library.Sublist"
begin

section \<open>The chatbot page of app.py\<close>

text \<open>
  The program is one Streamlit script. Its own logic is \<open>load_chatbot\<close>,
  \<open>generate_response\<close>, \<open>get_sample_conversations\<close> and the page function \<open>main\<close>,
  which runs once for every interaction of the user. Tokenization and generation belong to
  the transformers library: here the tokenizer and the model are values handed to the
  program, records of the methods the program calls, and every theorem holds for all of them.
\<close>

subsection \<open>Tensors, exceptions and the library objects\<close>

text \<open>
  \<open>tokenizer.encode(..., return_tensors='pt')\<close> gives a tensor of shape \<open>1 \<times> n\<close>, and so
  does \<open>model.generate\<close> on such an input. A tensor is modelled by its single row, so
  \<open>torch.cat([a, b], dim=-1)\<close> is \<open>a @ b\<close>, \<open>t.shape[-1]\<close> is \<open>length t\<close> and
  \<open>t[:, k:][0]\<close> is \<open>drop k t\<close>.
\<close>

type_synonym token = nat
type_synonym tensor = "token list"

text \<open>
  An instance of Python's \<open>Exception\<close>: its class name and what \<open>str(e)\<close> returns.
  These are the exceptions that \<open>except Exception\<close> catches, and the ones the library
  objects of this section raise; an exception outside \<open>Exception\<close> (KeyboardInterrupt,
  SystemExit) is a value of the type \<open>raised\<close> further down.
\<close>

datatype exn = Exn (exn_class: string) (exn_str: string)

text \<open>The keyword arguments of \<open>model.generate\<close> (lines 58-64).\<close>

record generate_kwargs =
  kw_max_length :: int
  kw_num_beams :: nat
  kw_no_repeat_ngram_size :: nat
  kw_temperature :: real
  kw_do_sample :: bool
  kw_pad_token_id :: "token option"
  kw_eos_token_id :: "token option"

text \<open>
  The attributes and methods of the tokenizer that the program uses. A special token that
  is not set is \<open>None\<close>. \<open>decode\<close> takes the tokens and \<open>skip_special_tokens\<close>.
  A library call either raises or returns: \<open>Inl\<close> is the exception raised.
\<close>

record tokenizer =
  eos_token :: "string option"
  pad_token :: "string option"
  eos_token_id :: "token option"
  pad_token_id :: "token option"
  encode :: "string \<Rightarrow> exn + tensor"
  decode :: "tensor \<Rightarrow> bool \<Rightarrow> exn + string"

record model =
  generate :: "tensor \<Rightarrow> generate_kwargs \<Rightarrow> exn + tensor"

text \<open>The calls into the library that one run of \<open>generate_response\<close> makes, in order.\<close>

datatype call =
  is_Encode: Encode string
  | is_Generate: Generate tensor generate_kwargs
  | is_Decode: Decode tensor bool

subsection \<open>load_chatbot\<close>

text \<open>
  The two \<open>from_pretrained\<close> calls of lines 33-34 either raise or return an object; their
  outcomes are the input of \<open>load_chatbot\<close>. Elements written to the page are collected in
  a list: \<open>st.metric(label, value)\<close> and \<open>st.error(message)\<close>.
\<close>

record provider =
  tokenizer_from_pretrained :: "exn + tokenizer"
  model_from_pretrained :: "exn + model"

datatype element =
  St_metric string nat
  | St_error string

text \<open>
  \<open>load_chatbot\<close> returns \<open>(tokenizer, model)\<close> or \<open>(None, None)\<close>: here \<open>Some\<close> of the
  pair or \<open>None\<close>, next to the elements it has shown. The test \<open>tokenizer and model\<close> of
  line 193 is true of a loaded pair (a tokenizer counts as true by its non-empty vocabulary)
  and false of \<open>(None, None)\<close>: it is the case distinction on this option. In the library
  \<open>pad_token_id\<close> is read off \<open>pad_token\<close>, so the assignment of line 38 moves both.
\<close>

definition load_chatbot :: "provider \<Rightarrow> (tokenizer \<times> model) option \<times> element list" where
  "load_chatbot p =
     (case tokenizer_from_pretrained p of
        Inl e \<Rightarrow> (None, [St_error (''Error loading model: '' @ exn_str e)])
      | Inr tokenizer \<Rightarrow>
          (case model_from_pretrained p of
             Inl e \<Rightarrow> (None, [St_error (''Error loading model: '' @ exn_str e)])
           | Inr model \<Rightarrow>
               (let tokenizer' =
                      (if pad_token tokenizer = None
                       then tokenizer\<lparr>pad_token := eos_token tokenizer,
                                       pad_token_id := eos_token_id tokenizer\<rparr>
                       else tokenizer)
                in (Some (tokenizer', model), []))))"

subsection \<open>generate_response\<close>

text \<open>\<open>str + None\<close> raises this TypeError (line 49 when the tokenizer has no eos token).\<close>

definition concat_none_error :: exn where
  "concat_none_error =
     Exn ''TypeError''
       (''can only concatenate str (not '' @ [CHR 0x22] @ ''NoneType'' @ [CHR 0x22] @ '') to str'')"

definition generation_kwargs :: "tokenizer \<Rightarrow> int \<Rightarrow> generate_kwargs" where
  "generation_kwargs tokenizer max_length =
     \<lparr>kw_max_length = max_length,
      kw_num_beams = 3,
      kw_no_repeat_ngram_size = 2,
      kw_temperature = 7 / 10,
      kw_do_sample = True,
      kw_pad_token_id = pad_token_id tokenizer,
      kw_eos_token_id = eos_token_id tokenizer\<rparr>"

text \<open>
  The body of the \<open>try\<close> block (lines 49-70): the library calls made, and either the
  exception that ended the block or the pair the block returns.
\<close>

definition generate_response_try ::
  "tokenizer \<Rightarrow> model \<Rightarrow> tensor option \<Rightarrow> string \<Rightarrow> int
     \<Rightarrow> call list \<times> (exn + string \<times> tensor)" where
  "generate_response_try tokenizer model chat_history user_input max_length =
     (case eos_token tokenizer of
        None \<Rightarrow> ([], Inl concat_none_error)
      | Some eos \<Rightarrow>
          (let text = user_input @ eos in
           case encode tokenizer text of
             Inl e \<Rightarrow> ([Encode text], Inl e)
           | Inr new_user_input_ids \<Rightarrow>
               (let bot_input_ids =
                      (case chat_history of
                         Some h \<Rightarrow> h @ new_user_input_ids
                       | None \<Rightarrow> new_user_input_ids);
                    kwargs = generation_kwargs tokenizer max_length
                in case generate model bot_input_ids kwargs of
                     Inl e \<Rightarrow> ([Encode text, Generate bot_input_ids kwargs], Inl e)
                   | Inr chat_history_ids \<Rightarrow>
                       (let span = drop (length bot_input_ids) chat_history_ids
                        in case decode tokenizer span True of
                             Inl e \<Rightarrow>
                               ([Encode text, Generate bot_input_ids kwargs, Decode span True],
                                Inl e)
                           | Inr response \<Rightarrow>
                               ([Encode text, Generate bot_input_ids kwargs, Decode span True],
                                Inr (response, chat_history_ids))))))"

text \<open>The whole function: the \<open>except Exception\<close> clause of lines 71-72 around the body.\<close>

definition generate_response ::
  "tokenizer \<Rightarrow> model \<Rightarrow> tensor option \<Rightarrow> string \<Rightarrow> int \<Rightarrow> string \<times> tensor option" where
  "generate_response tokenizer model chat_history user_input max_length =
     (case snd (generate_response_try tokenizer model chat_history user_input max_length) of
        Inr (response, chat_history_ids) \<Rightarrow> (response, Some chat_history_ids)
      | Inl e \<Rightarrow> (''Sorry, I encountered an error: '' @ exn_str e, None))"

subsection \<open>generate_response on any tokenizer and model\<close>

text \<open>
  \<open>generate_response\<close> takes whatever objects its caller passes. The methods of such objects
  may keep state from one call to the next (sampling draws on the random number generator
  of the library), so that a second call with the same arguments may answer differently;
  and they may raise an exception that is an instance of \<open>Exception\<close>, or one that is not,
  such as KeyboardInterrupt or SystemExit. Here \<open>'w\<close> is the state of the library, and a
  call returns its outcome and the state it leaves. The page function is modelled on the
  objects above: the library it loads does not raise outside \<open>Exception\<close> in the script
  thread, and the claims about the page do not depend on its state.
\<close>

datatype raised = is_Exception: Exception exn | BaseException exn

text \<open>
  The attributes and methods of any tokenizer and model object: as above, but a method takes
  the state of the library and returns it changed, and raises any exception.
\<close>

record 'w any_tokenizer =
  any_eos_token :: "string option"
  any_pad_token_id :: "token option"
  any_eos_token_id :: "token option"
  any_encode :: "string \<Rightarrow> 'w \<Rightarrow> (raised + tensor) \<times> 'w"
  any_decode :: "tensor \<Rightarrow> bool \<Rightarrow> 'w \<Rightarrow> (raised + string) \<times> 'w"

record 'w any_model =
  any_generate :: "tensor \<Rightarrow> generate_kwargs \<Rightarrow> 'w \<Rightarrow> (raised + tensor) \<times> 'w"

text \<open>The keyword arguments of lines 58-64 again.\<close>

definition any_generation_kwargs :: "'w any_tokenizer \<Rightarrow> int \<Rightarrow> generate_kwargs" where
  "any_generation_kwargs tokenizer max_length =
     \<lparr>kw_max_length = max_length,
      kw_num_beams = 3,
      kw_no_repeat_ngram_size = 2,
      kw_temperature = 7 / 10,
      kw_do_sample = True,
      kw_pad_token_id = any_pad_token_id tokenizer,
      kw_eos_token_id = any_eos_token_id tokenizer\<rparr>"

text \<open>
  The clause \<open>except Exception as e\<close> of lines 71-72: an instance of \<open>Exception\<close> becomes
  the returned pair, any other exception goes on to the caller.
\<close>

definition except_Exception :: "raised \<Rightarrow> raised + string \<times> tensor option" where
  "except_Exception x =
     (case x of
        Exception e \<Rightarrow> Inr (''Sorry, I encountered an error: '' @ exn_str e, None)
      | BaseException e \<Rightarrow> Inl (BaseException e))"

text \<open>
  Lines 47-72 on these objects. The result is the pair returned, or the exception that
  leaves the function, next to the state of the library after the last call made.
\<close>

definition generate_response_any ::
  "'w any_tokenizer \<Rightarrow> 'w any_model \<Rightarrow> tensor option \<Rightarrow> string \<Rightarrow> int \<Rightarrow> 'w
     \<Rightarrow> (raised + string \<times> tensor option) \<times> 'w" where
  "generate_response_any tokenizer model chat_history user_input max_length world =
     (case any_eos_token tokenizer of
        None \<Rightarrow> (except_Exception (Exception concat_none_error), world)
      | Some eos \<Rightarrow>
          (case any_encode tokenizer (user_input @ eos) world of
             (Inl x, world1) \<Rightarrow> (except_Exception x, world1)
           | (Inr new_user_input_ids, world1) \<Rightarrow>
               (let bot_input_ids =
                      (case chat_history of
                         Some h \<Rightarrow> h @ new_user_input_ids
                       | None \<Rightarrow> new_user_input_ids)
                in case any_generate model bot_input_ids
                          (any_generation_kwargs tokenizer max_length) world1 of
                     (Inl x, world2) \<Rightarrow> (except_Exception x, world2)
                   | (Inr chat_history_ids, world2) \<Rightarrow>
                       (case any_decode tokenizer
                               (drop (length bot_input_ids) chat_history_ids) True world2 of
                          (Inl x, world3) \<Rightarrow> (except_Exception x, world3)
                        | (Inr response, world3) \<Rightarrow>
                            (Inr (response, Some chat_history_ids), world3)))))"

text \<open>
  The objects of the first model, seen as objects of this one: no state, and every
  exception an instance of \<open>Exception\<close>. On them the two models of the function agree
  (lemma \<open>generate_response_any_stateless\<close>).
\<close>

definition stateless_tokenizer :: "tokenizer \<Rightarrow> 'w any_tokenizer" where
  "stateless_tokenizer tokenizer =
     \<lparr>any_eos_token = eos_token tokenizer,
      any_pad_token_id = pad_token_id tokenizer,
      any_eos_token_id = eos_token_id tokenizer,
      any_encode = (\<lambda>text world. (map_sum Exception id (encode tokenizer text), world)),
      any_decode = (\<lambda>ids skip world. (map_sum Exception id (decode tokenizer ids skip), world))\<rparr>"

definition stateless_model :: "model \<Rightarrow> 'w any_model" where
  "stateless_model model =
     \<lparr>any_generate = (\<lambda>ids kwargs world. (map_sum Exception id (generate model ids kwargs), world))\<rparr>"

subsection \<open>The page\<close>

definition get_sample_conversations :: "(string \<times> string) list" where
  "get_sample_conversations =
     [(''General Chat'', ''Hello! How are you doing today?''),
      (''Technology'', ''What do you think about the future of artificial intelligence?''),
      (''Science'', ''Can you explain quantum computing in simple terms?''),
      (''Philosophy'', ''What do you think is the meaning of life?''),
      (''Creative Writing'',
       ''Can you help me write a short story about space exploration?''),
      (''Problem Solving'',
       ''I'' @ [CHR 0x27] @ ''m facing a difficult decision at work. Can you help me think through it?'')]"

text \<open>
  The session store: the turn list, the token history, the counter, and the attribute
  \<open>selected_starter\<close>, which is present or not. Lines 87-92 give a new session the
  values of \<open>fresh_session\<close>.
\<close>

type_synonym turn = "string \<times> string"

record session_state =
  chat_history :: "turn list"
  model_chat_history :: "tensor option"
  conversation_count :: int
  selected_starter :: "string option"

definition fresh_session :: session_state where
  "fresh_session =
     \<lparr>chat_history = [], model_chat_history = None, conversation_count = 0,
      selected_starter = None\<rparr>"

text \<open>
  What one run of the script reads from outside the session store: the widget values, each
  button being \<open>True\<close> in the run its click started, and the outcome of the model provider.
  (\<open>load_chatbot\<close> is cached for the process, so later runs see the outcome of the first
  call; a run here may see any outcome.)
\<close>

record widgets =
  max_length_slider :: int
  clear_chat_history_button :: bool
  user_input_text :: string
  send_button :: bool
  clear_input_button :: bool
  starter_button :: "string \<Rightarrow> bool"
  hub :: provider

text \<open>The loop of lines 177-180 stops at the first starter button that was clicked.\<close>

fun clicked_starter :: "(string \<Rightarrow> bool) \<Rightarrow> (string \<times> string) list \<Rightarrow> string option" where
  "clicked_starter button [] = None"
| "clicked_starter button ((topic, starter) # rest) =
     (if button topic then Some starter else clicked_starter button rest)"

text \<open>
  A run ends with the session store it leaves, the metric and error elements it has shown,
  and whether it ended in \<open>st.rerun()\<close>, which stops the run where it is called. The
  markdown of the chat display is not modelled: it prints the turn list. The Clear Input
  button (lines 166-168) writes the key of the text box only, whose value is an input of
  every run here, and ends the run before line 188.
\<close>

record run =
  state :: session_state
  shown :: "element list"
  rerun :: bool

definition main :: "widgets \<Rightarrow> session_state \<Rightarrow> run" where
  "main w s =
     (if clear_chat_history_button w then
        \<lparr>state = s\<lparr>chat_history := [], model_chat_history := None, conversation_count := 0\<rparr>,
         shown = [], rerun = True\<rparr>
      else
        (let metric = St_metric ''Messages Exchanged'' (length (chat_history s)) in
         if clear_input_button w then
           \<lparr>state = s, shown = [metric], rerun = True\<rparr>
         else
           (case clicked_starter (starter_button w) get_sample_conversations of
              Some starter \<Rightarrow>
                \<lparr>state = s\<lparr>selected_starter := Some starter\<rparr>, shown = [metric], rerun = True\<rparr>
            | None \<Rightarrow>
                (let user_input =
                       (case selected_starter s of
                          Some starter \<Rightarrow> starter
                        | None \<Rightarrow> user_input_text w);
                     s1 = s\<lparr>selected_starter := None\<rparr>
                 in if (send_button w \<or> selected_starter s1 \<noteq> None) \<and> user_input \<noteq> [] then
                      (case load_chatbot (hub w) of
                         (Some (tokenizer, model), loading) \<Rightarrow>
                           (let s2 = s1\<lparr>chat_history :=
                                          chat_history s1 @ [(''user'', user_input)]\<rparr>;
                                (ai_response, new_chat_history) =
                                  generate_response tokenizer model (model_chat_history s2)
                                    user_input (max_length_slider w);
                                s3 = s2\<lparr>chat_history :=
                                          chat_history s2 @ [(''ai'', ai_response)],
                                        model_chat_history := new_chat_history,
                                        conversation_count := conversation_count s2 + 1\<rparr>
                            in \<lparr>state = s3, shown = metric # loading, rerun = True\<rparr>)
                       | (None, loading) \<Rightarrow>
                           \<lparr>state = s1,
                            shown = metric # loading @
                              [St_error ''Failed to load the chatbot model. Please refresh the page and try again.''],
                            rerun = False\<rparr>)
                    else \<lparr>state = s1, shown = [metric], rerun = False\<rparr>))))"

text \<open>
  \<open>st.rerun()\<close> starts the script again at once, on the store as it is, and no button is
  \<open>True\<close> in that run. One interaction of the user is the run it starts and, when that run
  ends in \<open>st.rerun()\<close>, the run after it, whose page the user sees. A run without a
  button never ends in \<open>st.rerun()\<close>, so there is no third run.
\<close>

definition released :: "widgets \<Rightarrow> widgets" where
  "released w =
     w\<lparr>clear_chat_history_button := False, send_button := False,
       clear_input_button := False, starter_button := (\<lambda>topic. False)\<rparr>"

definition interact :: "widgets \<Rightarrow> session_state \<Rightarrow> run" where
  "interact w s =
     (let r = main w s in if rerun r then main (released w) (state r) else r)"

fun session :: "widgets list \<Rightarrow> session_state \<Rightarrow> session_state" where
  "session [] s = s"
| "session (w # ws) s = session ws (state (interact w s))"

subsection \<open>The runs that process user input\<close>

text \<open>
  \<open>user_input_of\<close> is the value of \<open>user_input\<close> at line 188: the text box, or the
  starter of lines 183-185 when the attribute is present. \<open>processes_input\<close> says that a
  run reaches line 188 and takes the branch of line 189. After line 185 the attribute
  \<open>selected_starter\<close> is gone, so the condition of line 188 is the send button and a
  non-empty text.
\<close>

definition user_input_of :: "widgets \<Rightarrow> session_state \<Rightarrow> string" where
  "user_input_of w s =
     (case selected_starter s of Some starter \<Rightarrow> starter | None \<Rightarrow> user_input_text w)"

definition processes_input :: "widgets \<Rightarrow> session_state \<Rightarrow> bool" where
  "processes_input w s \<longleftrightarrow>
     \<not> clear_chat_history_button w \<and> \<not> clear_input_button w \<and>
     clicked_starter (starter_button w) get_sample_conversations = None \<and>
     send_button w \<and> user_input_of w s \<noteq> []"

subsection \<open>Notions of the specification\<close>

text \<open>
  The length of a token history, an absent one counting as empty; a generation routine
  that returns its input followed by the new tokens, as the library does for a
  decoder-only model; a turn list of user and assistant entries in alternation; a send
  with a loaded model in which the \<open>try\<close> block returns, one in which it raises, and a
  sequence of sends of the first kind.
\<close>

fun history_length :: "tensor option \<Rightarrow> nat" where
  "history_length None = 0"
| "history_length (Some h) = length h"

definition extends_input :: "model \<Rightarrow> bool" where
  "extends_input model \<longleftrightarrow>
     (\<forall>ids kwargs out. generate model ids kwargs = Inr out \<longrightarrow> prefix ids out)"

fun alternates :: "turn list \<Rightarrow> bool" where
  "alternates [] = True"
| "alternates [t] = False"
| "alternates (t # t' # rest) = (fst t = ''user'' \<and> fst t' = ''ai'' \<and> alternates rest)"

definition send_succeeds :: "widgets \<Rightarrow> session_state \<Rightarrow> bool" where
  "send_succeeds w s \<longleftrightarrow>
     processes_input w s \<and>
     (case fst (load_chatbot (hub w)) of
        None \<Rightarrow> False
      | Some (tokenizer, model) \<Rightarrow>
          (case snd (generate_response_try tokenizer model (model_chat_history s)
                       (user_input_of w s) (max_length_slider w)) of
             Inl e \<Rightarrow> False
           | Inr r \<Rightarrow> True))"

definition send_fails :: "widgets \<Rightarrow> session_state \<Rightarrow> bool" where
  "send_fails w s \<longleftrightarrow>
     processes_input w s \<and>
     (case fst (load_chatbot (hub w)) of
        None \<Rightarrow> False
      | Some (tokenizer, model) \<Rightarrow>
          (case snd (generate_response_try tokenizer model (model_chat_history s)
                       (user_input_of w s) (max_length_slider w)) of
             Inl e \<Rightarrow> True
           | Inr r \<Rightarrow> False))"

fun no_failures :: "widgets list \<Rightarrow> session_state \<Rightarrow> bool" where
  "no_failures [] s = True"
| "no_failures (w # ws) s = (send_succeeds w s \<and> no_failures ws (state (interact w s)))"

subsection \<open>Concrete objects\<close>

text \<open>
  A small tokenizer and two models, one that generates and one that raises, the provider
  outcomes built from them, and the widget values of a click on the send button and on the
  clear button.
\<close>

definition toy_tokenizer :: tokenizer where
  "toy_tokenizer =
     \<lparr>eos_token = Some ''<|endoftext|>'', pad_token = None,
      eos_token_id = Some 0, pad_token_id = None,
      encode = (\<lambda>text. Inr [length text, 0]),
      decode = (\<lambda>ids skip. Inr (if skip then ''hello'' else ''hello<|endoftext|>''))\<rparr>"

definition toy_model :: model where
  "toy_model = \<lparr>generate = (\<lambda>ids kwargs. Inr (ids @ [7, 0]))\<rparr>"

definition failing_model :: model where
  "failing_model = \<lparr>generate = (\<lambda>ids kwargs. Inl (Exn ''RuntimeError'' ''out of memory''))\<rparr>"

text \<open>The tokenizer as \<open>load_chatbot\<close> returns it: the pad token is the eos token.\<close>

definition loaded_tokenizer :: tokenizer where
  "loaded_tokenizer = toy_tokenizer\<lparr>pad_token := Some ''<|endoftext|>'', pad_token_id := Some 0\<rparr>"

definition toy_hub :: provider where
  "toy_hub = \<lparr>tokenizer_from_pretrained = Inr toy_tokenizer, model_from_pretrained = Inr toy_model\<rparr>"

definition failing_hub :: provider where
  "failing_hub =
     \<lparr>tokenizer_from_pretrained = Inr toy_tokenizer, model_from_pretrained = Inr failing_model\<rparr>"

definition offline_hub :: provider where
  "offline_hub =
     \<lparr>tokenizer_from_pretrained = Inl (Exn ''OSError'' ''no connection''),
      model_from_pretrained = Inr toy_model\<rparr>"

definition send_click :: "provider \<Rightarrow> string \<Rightarrow> widgets" where
  "send_click p text =
     \<lparr>max_length_slider = 1000, clear_chat_history_button = False, user_input_text = text,
      send_button = True, clear_input_button = False, starter_button = (\<lambda>topic. False),
      hub = p\<rparr>"

definition clear_click :: widgets where
  "clear_click =
     \<lparr>max_length_slider = 1000, clear_chat_history_button = True, user_input_text = [],
      send_button = False, clear_input_button = False, starter_button = (\<lambda>topic. False),
      hub = toy_hub\<rparr>"

definition three_exchanges :: session_state where
  "three_exchanges =
     session [send_click toy_hub ''one'', send_click toy_hub ''two'', send_click toy_hub ''three'']
       fresh_session"

text \<open>
  A library with state, the number of calls made so far: a tokenizer, a model whose
  generation raises on the second call of the library and returns on any other, a
  tokenizer whose encoding is interrupted, and a model whose generation exits.
\<close>

definition counting_tokenizer :: "nat any_tokenizer" where
  "counting_tokenizer =
     \<lparr>any_eos_token = Some ''<|endoftext|>'', any_pad_token_id = Some 0,
      any_eos_token_id = Some 0,
      any_encode = (\<lambda>text calls. (Inr [length text, 0], Suc calls)),
      any_decode = (\<lambda>ids skip calls. (Inr ''hello'', Suc calls))\<rparr>"

definition flaky_model :: "nat any_model" where
  "flaky_model =
     \<lparr>any_generate = (\<lambda>ids kwargs calls.
        (if calls = 1 then Inl (Exception (Exn ''RuntimeError'' ''out of memory''))
         else Inr (ids @ [7, 0]), Suc calls))\<rparr>"


definition exiting_model :: "nat any_model" where
  "exiting_model =
     \<lparr>any_generate = (\<lambda>ids kwargs calls.
        (Inl (BaseException (Exn ''SystemExit'' ''1'')), Suc calls))\<rparr>"


section \<open>Properties\<close>

subsection \<open>The branches of the page function\<close>

lemma clicked_starter_released [simp]: "clicked_starter (\<lambda>topic. False) xs = None"
  by (induction xs) auto

lemma main_released:
  "main (released w) s =
     \<lparr>state = s\<lparr>selected_starter := None\<rparr>,
      shown = [St_metric ''Messages Exchanged'' (length (chat_history s))], rerun = False\<rparr>"
  by (simp add: main_def released_def Let_def)

lemma state_main_clear:
  "clear_chat_history_button w \<Longrightarrow>
   main w s = \<lparr>state = s\<lparr>chat_history := [], model_chat_history := None, conversation_count := 0\<rparr>,
         shown = [], rerun = True\<rparr>"
  by (simp add: main_def)

lemma main_send_loaded:
  assumes "processes_input w s" and "load_chatbot (hub w) = (Some (tokenizer, model), loading)"
  shows "main w s =
     \<lparr>state = s\<lparr>selected_starter := None,
         chat_history := chat_history s @
           [(''user'', user_input_of w s),
            (''ai'', fst (generate_response tokenizer model (model_chat_history s)
                           (user_input_of w s) (max_length_slider w)))],
         model_chat_history := snd (generate_response tokenizer model (model_chat_history s)
                           (user_input_of w s) (max_length_slider w)),
         conversation_count := conversation_count s + 1\<rparr>,
       shown = St_metric ''Messages Exchanged'' (length (chat_history s)) # loading,
       rerun = True\<rparr>"
  using assms
  by (simp add: main_def processes_input_def user_input_of_def Let_def split: prod.splits)

lemma main_send_not_loaded:
  assumes "processes_input w s" and "load_chatbot (hub w) = (None, loading)"
  shows "main w s =
     \<lparr>state = s\<lparr>selected_starter := None\<rparr>,
       shown = St_metric ''Messages Exchanged'' (length (chat_history s)) # loading @
                              [St_error ''Failed to load the chatbot model. Please refresh the page and try again.''],
       rerun = False\<rparr>"
  using assms
  by (simp add: main_def processes_input_def user_input_of_def Let_def split: prod.splits)


lemma main_clear_input:
  assumes "\<not> clear_chat_history_button w" and "clear_input_button w"
  shows "main w s =
     \<lparr>state = s, shown = [St_metric ''Messages Exchanged'' (length (chat_history s))],
      rerun = True\<rparr>"
  using assms by (simp add: main_def)

lemma main_starter:
  assumes "\<not> clear_chat_history_button w" and "\<not> clear_input_button w"
    and "clicked_starter (starter_button w) get_sample_conversations = Some starter"
  shows "main w s =
     \<lparr>state = s\<lparr>selected_starter := Some starter\<rparr>,
      shown = [St_metric ''Messages Exchanged'' (length (chat_history s))], rerun = True\<rparr>"
  using assms by (simp add: main_def)

lemma main_idle:
  assumes "\<not> clear_chat_history_button w" and "\<not> clear_input_button w"
    and "clicked_starter (starter_button w) get_sample_conversations = None"
    and "\<not> (send_button w \<and> user_input_of w s \<noteq> [])"
  shows "main w s =
     \<lparr>state = s\<lparr>selected_starter := None\<rparr>,
      shown = [St_metric ''Messages Exchanged'' (length (chat_history s))], rerun = False\<rparr>"
  using assms by (cases "send_button w") (simp_all add: main_def user_input_of_def Let_def)

lemma main_cases:
  obtains
    (clear) "clear_chat_history_button w"
  | (clear_input) "\<not> clear_chat_history_button w" "clear_input_button w"
  | (starter) starter where "\<not> clear_chat_history_button w" "\<not> clear_input_button w"
      "clicked_starter (starter_button w) get_sample_conversations = Some starter"
  | (idle) "\<not> clear_chat_history_button w" "\<not> clear_input_button w"
      "clicked_starter (starter_button w) get_sample_conversations = None"
      "\<not> (send_button w \<and> user_input_of w s \<noteq> [])"
  | (send) "processes_input w s"
  unfolding processes_input_def
  by (cases "clicked_starter (starter_button w) get_sample_conversations") blast+

lemma main_other:
  assumes "\<not> clear_chat_history_button w" and "\<not> processes_input w s"
  shows "chat_history (state (main w s)) = chat_history s \<and>
    model_chat_history (state (main w s)) = model_chat_history s \<and>
    conversation_count (state (main w s)) = conversation_count s"
proof (cases rule: main_cases [where w = w and s = s])
  case clear
  with assms show ?thesis by simp
next
  case clear_input
  then show ?thesis by (simp add: main_clear_input)
next
  case (starter starter)
  then show ?thesis by (simp add: main_starter)
next
  case idle
  then show ?thesis by (simp add: main_idle)
next
  case send
  with assms show ?thesis by simp
qed

lemma state_interact:
  "state (interact w s) = (state (main w s))\<lparr>selected_starter := None\<rparr>"
proof (cases "rerun (main w s)")
  case True
  then show ?thesis by (simp add: interact_def Let_def main_released)
next
  case False
  have "selected_starter (state (main w s)) = None"
  proof (cases rule: main_cases [where w = w and s = s])
    case clear
    with False show ?thesis by (simp add: state_main_clear)
  next
    case clear_input
    with False show ?thesis by (simp add: main_clear_input)
  next
    case (starter starter)
    with False show ?thesis by (simp add: main_starter)
  next
    case idle
    then show ?thesis by (simp add: main_idle)
  next
    case send
    obtain loaded loading where l: "load_chatbot (hub w) = (loaded, loading)"
      by (cases "load_chatbot (hub w)")
    show ?thesis
    proof (cases loaded)
      case None
      with send l show ?thesis by (simp add: main_send_not_loaded)
    next
      case (Some p)
      with send l False show ?thesis by (cases p) (simp add: main_send_loaded)
    qed
  qed
  with False show ?thesis by (simp add: interact_def Let_def)
qed

lemma interact_send_loaded:
  assumes "processes_input w s" and "fst (load_chatbot (hub w)) = Some (tokenizer, model)"
  shows "state (interact w s) =
     s\<lparr>selected_starter := None,
       chat_history := chat_history s @
         [(''user'', user_input_of w s),
          (''ai'', fst (generate_response tokenizer model (model_chat_history s)
                         (user_input_of w s) (max_length_slider w)))],
       model_chat_history := snd (generate_response tokenizer model (model_chat_history s)
                         (user_input_of w s) (max_length_slider w)),
       conversation_count := conversation_count s + 1\<rparr>"
proof -
  from assms(2) obtain loading where "load_chatbot (hub w) = (Some (tokenizer, model), loading)"
    by (cases "load_chatbot (hub w)") simp
  from main_send_loaded [OF assms(1) this] show ?thesis
    by (simp add: state_interact)
qed

lemma interact_send_not_loaded:
  assumes "processes_input w s" and "fst (load_chatbot (hub w)) = None"
  shows "state (interact w s) = s\<lparr>selected_starter := None\<rparr>"
proof -
  from assms(2) obtain loading where "load_chatbot (hub w) = (None, loading)"
    by (cases "load_chatbot (hub w)") simp
  from main_send_not_loaded [OF assms(1) this] show ?thesis
    by (simp add: state_interact)
qed

lemma interact_clear:
  "clear_chat_history_button w \<Longrightarrow>
   state (interact w s) =
     s\<lparr>chat_history := [], model_chat_history := None, conversation_count := 0,
       selected_starter := None\<rparr>"
  by (simp add: state_interact state_main_clear)

lemma interact_other:
  assumes "\<not> clear_chat_history_button w" and "\<not> processes_input w s"
  shows "chat_history (state (interact w s)) = chat_history s \<and>
    model_chat_history (state (interact w s)) = model_chat_history s \<and>
    conversation_count (state (interact w s)) = conversation_count s"
  using main_other [OF assms] by (simp add: state_interact)

text \<open>
  A click on a starter button stores the starter and reruns; the rerun copies it into
  \<open>user_input\<close> and deletes the attribute before line 188 tests for it, so nothing is sent.
\<close>

lemma starter_click_sends_nothing:
  assumes "\<not> clear_chat_history_button w" and "\<not> clear_input_button w"
    and "clicked_starter (starter_button w) get_sample_conversations = Some starter"
  shows "chat_history (state (interact w s)) = chat_history s"
  using assms by (simp add: state_interact main_starter)

subsection \<open>The paths through the try block\<close>

lemma try_cases:
  obtains
    (no_eos) "eos_token tokenizer = None"
      "generate_response_try tokenizer model history user_input max_length =
         ([], Inl concat_none_error)"
  | (encode_raises) eos e where "eos_token tokenizer = Some eos"
      "encode tokenizer (user_input @ eos) = Inl e"
      "generate_response_try tokenizer model history user_input max_length =
         ([Encode (user_input @ eos)], Inl e)"
  | (generate_raises) eos new e where "eos_token tokenizer = Some eos"
      "encode tokenizer (user_input @ eos) = Inr new"
      "generate model (case history of Some h \<Rightarrow> h @ new | None \<Rightarrow> new)
         (generation_kwargs tokenizer max_length) = Inl e"
      "generate_response_try tokenizer model history user_input max_length =
         ([Encode (user_input @ eos),
           Generate (case history of Some h \<Rightarrow> h @ new | None \<Rightarrow> new)
             (generation_kwargs tokenizer max_length)], Inl e)"
  | (decode_raises) eos new ids e where "eos_token tokenizer = Some eos"
      "encode tokenizer (user_input @ eos) = Inr new"
      "generate model (case history of Some h \<Rightarrow> h @ new | None \<Rightarrow> new)
         (generation_kwargs tokenizer max_length) = Inr ids"
      "decode tokenizer
         (drop (length (case history of Some h \<Rightarrow> h @ new | None \<Rightarrow> new)) ids) True = Inl e"
      "generate_response_try tokenizer model history user_input max_length =
         ([Encode (user_input @ eos),
           Generate (case history of Some h \<Rightarrow> h @ new | None \<Rightarrow> new)
             (generation_kwargs tokenizer max_length),
           Decode (drop (length (case history of Some h \<Rightarrow> h @ new | None \<Rightarrow> new)) ids)
             True], Inl e)"
  | (returns) eos new ids response where "eos_token tokenizer = Some eos"
      "encode tokenizer (user_input @ eos) = Inr new"
      "generate model (case history of Some h \<Rightarrow> h @ new | None \<Rightarrow> new)
         (generation_kwargs tokenizer max_length) = Inr ids"
      "decode tokenizer
         (drop (length (case history of Some h \<Rightarrow> h @ new | None \<Rightarrow> new)) ids) True =
         Inr response"
      "generate_response_try tokenizer model history user_input max_length =
         ([Encode (user_input @ eos),
           Generate (case history of Some h \<Rightarrow> h @ new | None \<Rightarrow> new)
             (generation_kwargs tokenizer max_length),
           Decode (drop (length (case history of Some h \<Rightarrow> h @ new | None \<Rightarrow> new)) ids)
             True], Inr (response, ids))"
proof (cases "eos_token tokenizer")
  case None
  then show ?thesis using no_eos by (simp add: generate_response_try_def Let_def)
next
  case (Some eos)
  note eos = this
  show ?thesis
  proof (cases "encode tokenizer (user_input @ eos)")
    case (Inl e)
    with eos show ?thesis using encode_raises by (simp add: generate_response_try_def Let_def)
  next
    case (Inr new)
    note new = this
    let ?bot = "case history of Some h \<Rightarrow> h @ new | None \<Rightarrow> new"
    show ?thesis
    proof (cases "generate model ?bot (generation_kwargs tokenizer max_length)")
      case (Inl e)
      with eos new show ?thesis using generate_raises [of eos new e]
        by (simp add: generate_response_try_def Let_def)
    next
      case (Inr ids)
      note ids = this
      show ?thesis
      proof (cases "decode tokenizer (drop (length ?bot) ids) True")
        case (Inl e)
        with eos new ids show ?thesis using decode_raises [of eos new ids e]
          by (simp add: generate_response_try_def Let_def)
      next
        case (Inr response)
        with eos new ids show ?thesis using returns [of eos new ids response]
          by (simp add: generate_response_try_def Let_def)
      qed
    qed
  qed
qed

lemma successful_history:
  assumes "extends_input model"
    and "snd (generate_response_try tokenizer model history user_input max_length) =
           Inr (response, ids)"
  shows "\<exists>eos new reply.
           eos_token tokenizer = Some eos \<and>
           encode tokenizer (user_input @ eos) = Inr new \<and>
           decode tokenizer reply True = Inr response \<and>
           ids = (case history of Some h \<Rightarrow> h | None \<Rightarrow> []) @ new @ reply"
proof (cases rule: try_cases [where tokenizer = tokenizer and model = model
      and history = history and user_input = user_input and max_length = max_length])
  case (returns eos new ids' response')
  let ?bot = "case history of Some h \<Rightarrow> h @ new | None \<Rightarrow> new"
  from returns assms(2) have eq: "ids' = ids" "response' = response" by simp_all
  from assms(1) returns(3) eq have "prefix ?bot ids"
    by (auto simp add: extends_input_def)
  then obtain reply where reply: "ids = ?bot @ reply"
    by (auto simp add: prefix_def)
  then have "drop (length ?bot) ids = reply" by simp
  with returns(4) eq have d: "decode tokenizer reply True = Inr response" by simp
  have "?bot @ reply = (case history of Some h \<Rightarrow> h | None \<Rightarrow> []) @ new @ reply"
    by (cases history) simp_all
  with reply returns(1,2) d show ?thesis by auto
qed (use assms(2) in simp_all)

text \<open>The function in terms of what the library answers.\<close>

lemma generate_response_eq:
  assumes "eos_token tokenizer = Some eos"
    and "encode tokenizer (user_input @ eos) = Inr new"
  shows "generate_response tokenizer model history user_input max_length =
     (case generate model (case history of Some h \<Rightarrow> h @ new | None \<Rightarrow> new)
             (generation_kwargs tokenizer max_length) of
        Inl e \<Rightarrow> (''Sorry, I encountered an error: '' @ exn_str e, None)
      | Inr ids \<Rightarrow>
          (case decode tokenizer
                  (drop (length (case history of Some h \<Rightarrow> h @ new | None \<Rightarrow> new)) ids) True of
             Inl e \<Rightarrow> (''Sorry, I encountered an error: '' @ exn_str e, None)
           | Inr response \<Rightarrow> (response, Some ids)))"
  using assms
  by (simp add: generate_response_def generate_response_try_def Let_def split: sum.splits)

lemma generate_response_encode_raises:
  assumes "eos_token tokenizer = Some eos"
    and "encode tokenizer (user_input @ eos) = Inl e"
  shows "generate_response tokenizer model history user_input max_length =
     (''Sorry, I encountered an error: '' @ exn_str e, None)"
  using assms
  by (simp add: generate_response_def generate_response_try_def Let_def split: sum.splits)

lemma generate_response_no_eos:
  assumes "eos_token tokenizer = None"
  shows "generate_response tokenizer model history user_input max_length =
     (''Sorry, I encountered an error: '' @ exn_str concat_none_error, None)"
  using assms
  by (simp add: generate_response_def generate_response_try_def Let_def split: sum.splits)


subsection \<open>The paths through the function on any objects\<close>

lemma any_cases:
  obtains
    (no_eos) "any_eos_token tokenizer = None"
      "generate_response_any tokenizer model history user_input max_length world =
         (Inr (''Sorry, I encountered an error: '' @ exn_str concat_none_error, None), world)"
  | (encode_raises) eos x world1 where "any_eos_token tokenizer = Some eos"
      "any_encode tokenizer (user_input @ eos) world = (Inl x, world1)"
      "generate_response_any tokenizer model history user_input max_length world =
         (except_Exception x, world1)"
  | (generate_raises) eos new world1 x world2 where "any_eos_token tokenizer = Some eos"
      "any_encode tokenizer (user_input @ eos) world = (Inr new, world1)"
      "any_generate model (case history of Some h \<Rightarrow> h @ new | None \<Rightarrow> new)
         (any_generation_kwargs tokenizer max_length) world1 = (Inl x, world2)"
      "generate_response_any tokenizer model history user_input max_length world =
         (except_Exception x, world2)"
  | (decode_raises) eos new world1 ids world2 x world3 where
      "any_eos_token tokenizer = Some eos"
      "any_encode tokenizer (user_input @ eos) world = (Inr new, world1)"
      "any_generate model (case history of Some h \<Rightarrow> h @ new | None \<Rightarrow> new)
         (any_generation_kwargs tokenizer max_length) world1 = (Inr ids, world2)"
      "any_decode tokenizer
         (drop (length (case history of Some h \<Rightarrow> h @ new | None \<Rightarrow> new)) ids) True world2 =
         (Inl x, world3)"
      "generate_response_any tokenizer model history user_input max_length world =
         (except_Exception x, world3)"
  | (returns) eos new world1 ids world2 response world3 where
      "any_eos_token tokenizer = Some eos"
      "any_encode tokenizer (user_input @ eos) world = (Inr new, world1)"
      "any_generate model (case history of Some h \<Rightarrow> h @ new | None \<Rightarrow> new)
         (any_generation_kwargs tokenizer max_length) world1 = (Inr ids, world2)"
      "any_decode tokenizer
         (drop (length (case history of Some h \<Rightarrow> h @ new | None \<Rightarrow> new)) ids) True world2 =
         (Inr response, world3)"
      "generate_response_any tokenizer model history user_input max_length world =
         (Inr (response, Some ids), world3)"
proof (cases "any_eos_token tokenizer")
  case None
  then show ?thesis using no_eos
    by (simp add: generate_response_any_def except_Exception_def)
next
  case (Some eos)
  note eos = this
  obtain r1 world1 where enc: "any_encode tokenizer (user_input @ eos) world = (r1, world1)"
    by (cases "any_encode tokenizer (user_input @ eos) world")
  show ?thesis
  proof (cases r1)
    case (Inl x)
    with eos enc show ?thesis using encode_raises [of eos x world1]
      by (simp add: generate_response_any_def)
  next
    case (Inr new)
    note new = this
    let ?bot = "case history of Some h \<Rightarrow> h @ new | None \<Rightarrow> new"
    obtain r2 world2 where gen:
      "any_generate model ?bot (any_generation_kwargs tokenizer max_length) world1 = (r2, world2)"
      by (cases "any_generate model ?bot (any_generation_kwargs tokenizer max_length) world1")
    show ?thesis
    proof (cases r2)
      case (Inl x)
      with eos enc new gen show ?thesis using generate_raises [of eos new world1 x world2]
        by (simp add: generate_response_any_def Let_def)
    next
      case (Inr ids)
      note ids = this
      obtain r3 world3 where dec:
        "any_decode tokenizer (drop (length ?bot) ids) True world2 = (r3, world3)"
        by (cases "any_decode tokenizer (drop (length ?bot) ids) True world2")
      show ?thesis
      proof (cases r3)
        case (Inl x)
        with eos enc new gen ids dec show ?thesis
          using decode_raises [of eos new world1 ids world2 x world3]
          by (simp add: generate_response_any_def Let_def)
      next
        case (Inr response)
        with eos enc new gen ids dec show ?thesis
          using returns [of eos new world1 ids world2 response world3]
          by (simp add: generate_response_any_def Let_def)
      qed
    qed
  qed
qed

lemma generate_response_any_stateless:
  "generate_response_any (stateless_tokenizer tokenizer) (stateless_model model) history
     user_input max_length world =
   (Inr (generate_response tokenizer model history user_input max_length), world)"
  by (cases rule: try_cases [where tokenizer = tokenizer and model = model
        and history = history and user_input = user_input and max_length = max_length])
    (simp_all add: generate_response_any_def generate_response_def stateless_tokenizer_def
      stateless_model_def any_generation_kwargs_def generation_kwargs_def except_Exception_def
      Let_def)

subsection \<open>The concrete objects\<close>

lemma three_exchanges_value:
  "three_exchanges =
      \<lparr>chat_history =
         [(''user'', ''one''), (''ai'', ''hello''), (''user'', ''two''),
          (''ai'', ''hello''), (''user'', ''three''), (''ai'', ''hello'')],
       model_chat_history = Some [16, 0, 7, 0, 16, 0, 7, 0, 18, 0, 7, 0],
       conversation_count = 3, selected_starter = None\<rparr>"
    by (simp add: three_exchanges_def state_interact main_def Let_def send_click_def
        load_chatbot_def toy_hub_def generate_response_def generate_response_try_def
        toy_tokenizer_def toy_model_def fresh_session_def get_sample_conversations_def
        generation_kwargs_def)

lemma send_click_processes:
  "selected_starter s = None \<Longrightarrow> text \<noteq> [] \<Longrightarrow> processes_input (send_click p text) s"
  "selected_starter s = None \<Longrightarrow> user_input_of (send_click p text) s = text"
  by (simp_all add: processes_input_def user_input_of_def send_click_def)

lemma load_toy_hubs:
  "fst (load_chatbot (hub (send_click toy_hub text))) = Some (loaded_tokenizer, toy_model)"
  "fst (load_chatbot (hub (send_click failing_hub text))) = Some (loaded_tokenizer, failing_model)"
  "fst (load_chatbot (hub (send_click offline_hub text))) = None"
  by (simp_all add: send_click_def toy_hub_def failing_hub_def offline_hub_def load_chatbot_def
      toy_tokenizer_def loaded_tokenizer_def)

subsection \<open>Turn lists\<close>

lemma alternates_append:
  "alternates turns \<Longrightarrow> alternates (turns @ [(''user'', u), (''ai'', a)])"
  by (induction turns rule: alternates.induct) simp_all

lemma alternates_interact:
  assumes "alternates (chat_history s)"
  shows "alternates (chat_history (state (interact w s)))"
proof (cases "clear_chat_history_button w")
  case True
  then show ?thesis by (simp add: interact_clear)
next
  case False
  note nc = this
  show ?thesis
  proof (cases "processes_input w s")
    case False
    with nc assms show ?thesis by (simp add: interact_other)
  next
    case True
    show ?thesis
    proof (cases "fst (load_chatbot (hub w))")
      case None
      with True assms show ?thesis by (simp add: interact_send_not_loaded)
    next
      case (Some p)
      then obtain tokenizer model where "fst (load_chatbot (hub w)) = Some (tokenizer, model)"
        by (cases p) simp
      from interact_send_loaded [OF True this] assms show ?thesis
        by (simp add: alternates_append)
    qed
  qed
qed

lemma alternates_session:
  "alternates (chat_history s) \<Longrightarrow> alternates (chat_history (session ws s))"
  by (induction ws arbitrary: s) (simp_all add: alternates_interact)

lemma send_failsD:
  assumes "send_fails w s"
  shows "\<exists>tokenizer model e.
           processes_input w s \<and> fst (load_chatbot (hub w)) = Some (tokenizer, model) \<and>
           snd (generate_response_try tokenizer model (model_chat_history s)
                  (user_input_of w s) (max_length_slider w)) = Inl e"
proof (cases "fst (load_chatbot (hub w))")
  case None
  with assms show ?thesis by (simp add: send_fails_def)
next
  case (Some p)
  obtain tokenizer model where p: "p = (tokenizer, model)" by (cases p)
  show ?thesis
  proof (cases "snd (generate_response_try tokenizer model (model_chat_history s)
                  (user_input_of w s) (max_length_slider w))")
    case (Inl e)
    with assms Some p show ?thesis by (simp add: send_fails_def)
  next
    case (Inr r)
    with assms Some p show ?thesis by (simp add: send_fails_def)
  qed
qed

lemma send_succeedsD:
  assumes "send_succeeds w s"
  shows "\<exists>tokenizer model response ids.
           processes_input w s \<and> fst (load_chatbot (hub w)) = Some (tokenizer, model) \<and>
           snd (generate_response_try tokenizer model (model_chat_history s)
                  (user_input_of w s) (max_length_slider w)) = Inr (response, ids)"
proof (cases "fst (load_chatbot (hub w))")
  case None
  with assms show ?thesis by (simp add: send_succeeds_def)
next
  case (Some p)
  obtain tokenizer model where p: "p = (tokenizer, model)" by (cases p)
  show ?thesis
  proof (cases "snd (generate_response_try tokenizer model (model_chat_history s)
                  (user_input_of w s) (max_length_slider w))")
    case (Inl e)
    with assms Some p show ?thesis by (simp add: send_succeeds_def)
  next
    case (Inr r)
    obtain response ids where "r = (response, ids)" by (cases r)
    with Inr assms Some p show ?thesis by (simp add: send_succeeds_def)
  qed
qed

lemma send_fails_or_succeeds:
  assumes "processes_input w s" and "fst (load_chatbot (hub w)) = Some (tokenizer, model)"
  shows "send_fails w s \<or> send_succeeds w s"
  using assms by (simp add: send_fails_def send_succeeds_def split: sum.splits)

lemma send_succeeds_roles:
  assumes "send_succeeds w s"
  shows "map fst (chat_history (state (interact w s))) =
           map fst (chat_history s) @ [''user'', ''ai'']"
proof -
  from assms have p: "processes_input w s"
    by (simp add: send_succeeds_def)
  from send_succeedsD [OF assms] obtain tokenizer model where
    "fst (load_chatbot (hub w)) = Some (tokenizer, model)"
    by blast
  from interact_send_loaded [OF p this] show ?thesis by simp
qed

lemma no_failures_roles:
  "no_failures ws s \<Longrightarrow>
   map fst (chat_history (session ws s)) =
     map fst (chat_history s) @ concat (replicate (length ws) [''user'', ''ai''])"
proof (induction ws arbitrary: s)
  case Nil
  then show ?case by simp
next
  case (Cons w ws)
  then have "map fst (chat_history (session ws (state (interact w s)))) =
      map fst (chat_history (state (interact w s))) @
        concat (replicate (length ws) [''user'', ''ai''])"
    by simp
  with Cons.prems show ?case
    by (simp add: send_succeeds_roles)
qed

section \<open>The claims\<close>

subsection \<open>Token history\<close>

text \<open>
  C1, as amended. The claim as written fails twice. A send whose generation fails sets the
  token history to absent (lines 72 and 204), so its length drops without any clear; and
  after a successful send the history is the output of \<open>model.generate\<close>, which holds the
  reply tokens as well as the encoded turns. What holds: an interaction changes the token
  history only when it clears or when it sends with a loaded model. Clear and a failed send
  leave it absent. When the generation routine returns its input followed by new tokens, a
  successful send leaves the prior history, then the encoding of the new user turn with its
  end-of-turn marker, then the reply tokens that were decoded into the response; so the
  length never decreases except on a clear or a failed send.
\<close>

theorem token_history_step:
  assumes "\<forall>tokenizer model.
             fst (load_chatbot (hub w)) = Some (tokenizer, model) \<longrightarrow> extends_input model"
  shows "(clear_chat_history_button w \<or> send_fails w s \<longrightarrow>
            model_chat_history (state (interact w s)) = None) \<and>
         (\<not> clear_chat_history_button w \<and> \<not> send_fails w s \<longrightarrow>
            history_length (model_chat_history s) \<le>
              history_length (model_chat_history (state (interact w s)))) \<and>
         (\<not> clear_chat_history_button w \<and> \<not> send_fails w s \<and> \<not> send_succeeds w s \<longrightarrow>
            model_chat_history (state (interact w s)) = model_chat_history s) \<and>
         (\<forall>tokenizer model response ids.
            processes_input w s \<and> fst (load_chatbot (hub w)) = Some (tokenizer, model) \<and>
            snd (generate_response_try tokenizer model (model_chat_history s)
                   (user_input_of w s) (max_length_slider w)) = Inr (response, ids) \<longrightarrow>
            (\<exists>eos new reply.
               eos_token tokenizer = Some eos \<and>
               encode tokenizer (user_input_of w s @ eos) = Inr new \<and>
               decode tokenizer reply True = Inr response \<and>
               model_chat_history (state (interact w s)) =
                 Some ((case model_chat_history s of Some h \<Rightarrow> h | None \<Rightarrow> []) @ new @ reply)))"
proof -
  let ?after = "model_chat_history (state (interact w s))"
  let ?body = "\<lambda>tokenizer model. snd (generate_response_try tokenizer model
                (model_chat_history s) (user_input_of w s) (max_length_slider w))"
  have sent: "?after = snd (generate_response tokenizer model (model_chat_history s)
      (user_input_of w s) (max_length_slider w))"
    if "processes_input w s" and "fst (load_chatbot (hub w)) = Some (tokenizer, model)"
    for tokenizer model
    using interact_send_loaded [OF that] by simp
  have idle: "?after = model_chat_history s"
    if "\<not> clear_chat_history_button w"
      and "\<not> (processes_input w s \<and> fst (load_chatbot (hub w)) \<noteq> None)"
  proof (cases "processes_input w s")
    case True
    with that(2) have "fst (load_chatbot (hub w)) = None" by blast
    from interact_send_not_loaded [OF True this] show ?thesis by simp
  next
    case False
    with that(1) show ?thesis by (simp add: interact_other)
  qed
  have success: "\<exists>eos new reply.
        eos_token tokenizer = Some eos \<and>
        encode tokenizer (user_input_of w s @ eos) = Inr new \<and>
        decode tokenizer reply True = Inr response \<and>
        ?after = Some ((case model_chat_history s of Some h \<Rightarrow> h | None \<Rightarrow> []) @ new @ reply)"
    if p: "processes_input w s" and l: "fst (load_chatbot (hub w)) = Some (tokenizer, model)"
      and t: "?body tokenizer model = Inr (response, ids)"
    for tokenizer model response ids
  proof -
    from assms l have "extends_input model" by blast
    from successful_history [OF this t] sent [OF p l] t show ?thesis
      by (auto simp add: generate_response_def)
  qed
  have reset: "?after = None" if "clear_chat_history_button w \<or> send_fails w s"
    using that
  proof
    assume "clear_chat_history_button w"
    then show ?thesis by (simp add: interact_clear)
  next
    assume f: "send_fails w s"
    then have p: "processes_input w s"
      by (simp add: send_fails_def)
    from send_failsD [OF f] obtain tokenizer model e where
      l: "fst (load_chatbot (hub w)) = Some (tokenizer, model)" and "?body tokenizer model = Inl e"
      by blast
    with sent [OF p l] show ?thesis
      by (simp add: generate_response_def)
  qed
  have unchanged: "?after = model_chat_history s"
    if "\<not> clear_chat_history_button w" and "\<not> send_fails w s" and "\<not> send_succeeds w s"
  proof -
    from that(2,3) send_fails_or_succeeds [of w s]
    have "\<not> (processes_input w s \<and> fst (load_chatbot (hub w)) \<noteq> None)"
      by fastforce
    with that(1) show ?thesis by (rule idle)
  qed
  have monotone: "history_length (model_chat_history s) \<le> history_length ?after"
    if nc: "\<not> clear_chat_history_button w" and nf: "\<not> send_fails w s"
  proof (cases "send_succeeds w s")
    case False
    with nc nf show ?thesis by (simp add: unchanged)
  next
    case True
    then have p: "processes_input w s"
      by (simp add: send_succeeds_def)
    from send_succeedsD [OF True] obtain tokenizer model response ids where
      l: "fst (load_chatbot (hub w)) = Some (tokenizer, model)"
      and t: "?body tokenizer model = Inr (response, ids)"
      by blast
    from success [OF p l t] show ?thesis
      by (cases "model_chat_history s") auto
  qed
  from reset monotone unchanged success show ?thesis by blast
qed

theorem token_history_step_witness:
  "extends_input toy_model \<and>
   \<not> clear_chat_history_button (send_click toy_hub ''hi'') \<and>
   \<not> send_fails (send_click toy_hub ''hi'') three_exchanges \<and>
   processes_input (send_click toy_hub ''hi'') three_exchanges \<and>
   fst (load_chatbot (hub (send_click toy_hub ''hi''))) = Some (loaded_tokenizer, toy_model) \<and>
   history_length (model_chat_history three_exchanges) = 12 \<and>
   history_length (model_chat_history
     (state (interact (send_click toy_hub ''hi'') three_exchanges))) = 16 \<and>
   model_chat_history (state (interact (send_click toy_hub ''hi'') three_exchanges)) =
     Some ([16, 0, 7, 0, 16, 0, 7, 0, 18, 0, 7, 0] @ [15, 0] @ [7, 0])"
proof -
  let ?w = "send_click toy_hub ''hi''"
  have x: "extends_input toy_model"
    by (simp add: extends_input_def toy_model_def)
  have l: "fst (load_chatbot (hub ?w)) = Some (loaded_tokenizer, toy_model)"
    by (rule load_toy_hubs)
  have a: "\<forall>tokenizer model.
      fst (load_chatbot (hub ?w)) = Some (tokenizer, model) \<longrightarrow> extends_input model"
    using x l by simp
  have s: "selected_starter three_exchanges = None"
    by (simp add: three_exchanges_value)
  have p: "processes_input ?w three_exchanges"
    by (simp add: send_click_processes s)
  have u: "user_input_of ?w three_exchanges = ''hi''"
    by (simp add: send_click_processes s)
  have h: "model_chat_history three_exchanges = Some [16, 0, 7, 0, 16, 0, 7, 0, 18, 0, 7, 0]"
    by (simp add: three_exchanges_value)
  have t: "snd (generate_response_try loaded_tokenizer toy_model
      (model_chat_history three_exchanges) (user_input_of ?w three_exchanges)
      (max_length_slider ?w)) =
      Inr (''hello'', [16, 0, 7, 0, 16, 0, 7, 0, 18, 0, 7, 0, 15, 0, 7, 0])"
    by (simp add: h u generate_response_try_def Let_def loaded_tokenizer_def toy_tokenizer_def
        toy_model_def)
  have c: "\<not> clear_chat_history_button ?w"
    by (simp add: send_click_def)
  have f: "\<not> send_fails ?w three_exchanges"
    using t by (simp add: send_fails_def l)
  have e: "encode loaded_tokenizer msg = Inr new \<longleftrightarrow> new = [length msg, 0]" for msg new
    by (auto simp add: loaded_tokenizer_def toy_tokenizer_def)
  have o: "eos_token loaded_tokenizer = Some eos \<longleftrightarrow> eos = ''<|endoftext|>''" for eos
    by (auto simp add: loaded_tokenizer_def toy_tokenizer_def)
  note step = token_history_step [OF a, of three_exchanges]
  from step c f
  have m: "history_length (model_chat_history three_exchanges) \<le>
      history_length (model_chat_history (state (interact ?w three_exchanges)))"
    by blast
  from step p l t
  have "\<exists>eos new reply.
      eos_token loaded_tokenizer = Some eos \<and>
      encode loaded_tokenizer (user_input_of ?w three_exchanges @ eos) = Inr new \<and>
      decode loaded_tokenizer reply True = Inr ''hello'' \<and>
      model_chat_history (state (interact ?w three_exchanges)) =
        Some ((case model_chat_history three_exchanges of Some h \<Rightarrow> h | None \<Rightarrow> []) @ new @ reply)"
    by blast
  then obtain reply where
    r: "model_chat_history (state (interact ?w three_exchanges)) =
        Some ([16, 0, 7, 0, 16, 0, 7, 0, 18, 0, 7, 0] @ [15, 0] @ reply)"
    by (auto simp add: e o h u)
  have "model_chat_history (state (interact ?w three_exchanges)) =
      Some [16, 0, 7, 0, 16, 0, 7, 0, 18, 0, 7, 0, 15, 0, 7, 0]"
    using interact_send_loaded [OF p l] t by (simp add: generate_response_def)
  with r m x c f p l h show ?thesis by auto
qed

text \<open>
  The counterexample to C1 as written. After three exchanges the history has 12 tokens; a
  send with a model that raises is no clear, and leaves the history absent. And the first
  send of a new session encodes the turn as \<open>[15, 0]\<close> and leaves the history
  \<open>[15, 0, 7, 0]\<close>, which is not the concatenation of the encode steps.
\<close>

theorem token_history_counterexample:
  "\<not> clear_chat_history_button (send_click failing_hub ''hi'') \<and>
   history_length (model_chat_history three_exchanges) = 12 \<and>
   history_length (model_chat_history
     (state (interact (send_click failing_hub ''hi'') three_exchanges))) = 0 \<and>
   encode loaded_tokenizer (''hi'' @ ''<|endoftext|>'') = Inr [15, 0] \<and>
   model_chat_history (state (interact (send_click toy_hub ''hi'') fresh_session)) =
     Some [15, 0, 7, 0]"
proof -
  have s: "selected_starter three_exchanges = None"
    by (simp add: three_exchanges_value)
  have f: "selected_starter fresh_session = None" "model_chat_history fresh_session = None"
    by (simp_all add: fresh_session_def)
  have h: "model_chat_history three_exchanges = Some [16, 0, 7, 0, 16, 0, 7, 0, 18, 0, 7, 0]"
    by (simp add: three_exchanges_value)
  have 1: "\<not> clear_chat_history_button (send_click failing_hub ''hi'')"
    by (simp add: send_click_def)
  have p: "processes_input (send_click failing_hub ''hi'') three_exchanges"
    by (simp add: send_click_processes s)
  have q: "processes_input (send_click toy_hub ''hi'') fresh_session"
    by (simp add: send_click_processes f)
  have 2: "model_chat_history
     (state (interact (send_click failing_hub ''hi'') three_exchanges)) = None"
    using interact_send_loaded [OF p load_toy_hubs(2)] s
    by (simp add: send_click_processes h generate_response_def generate_response_try_def Let_def
        loaded_tokenizer_def toy_tokenizer_def failing_model_def)
  have 3: "encode loaded_tokenizer (''hi'' @ ''<|endoftext|>'') = Inr [15, 0]"
    by (simp add: loaded_tokenizer_def toy_tokenizer_def)
  have 4: "model_chat_history (state (interact (send_click toy_hub ''hi'') fresh_session)) =
     Some [15, 0, 7, 0]"
    using interact_send_loaded [OF q load_toy_hubs(1)] f
    by (simp add: send_click_processes generate_response_def generate_response_try_def Let_def
        loaded_tokenizer_def toy_tokenizer_def toy_model_def)
  from 1 2 3 4 h show ?thesis by simp
qed

subsection \<open>Sends\<close>

text \<open>
  C2. After a sequence of N sends from a new session, in each of which the model loads and
  the \<open>try\<close> block of the generator returns, the turn list has 2N entries, and their
  speakers are user, ai, N times over.
\<close>

theorem turn_count_after_sends:
  assumes "no_failures ws fresh_session"
  shows "length (chat_history (session ws fresh_session)) = 2 * length ws \<and>
         map fst (chat_history (session ws fresh_session)) =
           concat (replicate (length ws) [''user'', ''ai''])"
proof -
  have r: "map fst (chat_history (session ws fresh_session)) =
      concat (replicate (length ws) [''user'', ''ai''])"
    using no_failures_roles [OF assms] by (simp add: fresh_session_def)
  have "length (concat (replicate (length ws) [''user'', ''ai''])) = 2 * length ws"
    by (induction ws) simp_all
  with r have "length (map fst (chat_history (session ws fresh_session))) = 2 * length ws"
    by simp
  then have "length (chat_history (session ws fresh_session)) = 2 * length ws"
    by (simp only: length_map)
  with r show ?thesis by simp
qed

theorem turn_count_after_sends_witness:
  "no_failures
     [send_click toy_hub ''one'', send_click toy_hub ''two'', send_click toy_hub ''three'']
     fresh_session \<and>
   length (chat_history (session
     [send_click toy_hub ''one'', send_click toy_hub ''two'', send_click toy_hub ''three'']
     fresh_session)) = 6 \<and>
   map fst (chat_history (session
     [send_click toy_hub ''one'', send_click toy_hub ''two'', send_click toy_hub ''three'']
     fresh_session)) = [''user'', ''ai'', ''user'', ''ai'', ''user'', ''ai'']"
proof -
  let ?ws = "[send_click toy_hub ''one'', send_click toy_hub ''two'', send_click toy_hub ''three'']"
  have ok: "send_succeeds (send_click toy_hub msg) s"
    if "selected_starter s = None" and "msg \<noteq> []" for msg s
    using that
    by (simp add: send_succeeds_def send_click_processes load_toy_hubs)
      (simp add: generate_response_try_def Let_def loaded_tokenizer_def toy_tokenizer_def
        toy_model_def)
  have st: "selected_starter (state (interact w s)) = None" for w s
    by (simp add: state_interact)
  have n: "no_failures ?ws fresh_session"
    by (simp add: ok st fresh_session_def)
  have three: "replicate 3 x = [x, x, x]" for x :: "string list"
    by (simp add: numeral_3_eq_3)
  show ?thesis
    using n turn_count_after_sends [OF n] by (simp add: three)
qed

text \<open>
  C10. When the model is loaded, a send appends the user turn and then the assistant turn
  that \<open>generate_response\<close> returned, which is the apology when the \<open>try\<close> block raised.
  Every turn list reachable from a new session alternates user and assistant entries and
  starts with a user entry.
\<close>

theorem send_appends_two_turns:
  "(\<forall>tokenizer model.
      processes_input w s \<and> fst (load_chatbot (hub w)) = Some (tokenizer, model) \<longrightarrow>
      chat_history (state (interact w s)) =
        chat_history s @
          [(''user'', user_input_of w s),
           (''ai'', fst (generate_response tokenizer model (model_chat_history s)
                          (user_input_of w s) (max_length_slider w)))] \<and>
      (\<forall>e. snd (generate_response_try tokenizer model (model_chat_history s)
                 (user_input_of w s) (max_length_slider w)) = Inl e \<longrightarrow>
         chat_history (state (interact w s)) =
           chat_history s @
             [(''user'', user_input_of w s),
              (''ai'', ''Sorry, I encountered an error: '' @ exn_str e)])) \<and>
   alternates (chat_history (session ws fresh_session))"
proof -
  have "alternates (chat_history (session ws fresh_session))"
    by (rule alternates_session) (simp add: fresh_session_def)
  then show ?thesis
    by (auto simp add: interact_send_loaded generate_response_def)
qed

theorem send_appends_two_turns_witness:
  "processes_input (send_click failing_hub ''hi'') three_exchanges \<and>
   fst (load_chatbot (hub (send_click failing_hub ''hi''))) =
     Some (loaded_tokenizer, failing_model) \<and>
   snd (generate_response_try loaded_tokenizer failing_model
          (model_chat_history three_exchanges) ''hi'' 1000) =
     Inl (Exn ''RuntimeError'' ''out of memory'') \<and>
   chat_history (state (interact (send_click failing_hub ''hi'') three_exchanges)) =
     chat_history three_exchanges @
       [(''user'', ''hi''), (''ai'', ''Sorry, I encountered an error: out of memory'')] \<and>
   alternates (chat_history (session
     [send_click toy_hub ''one'', send_click toy_hub ''two'', send_click toy_hub ''three'']
     fresh_session))"
proof -
  let ?w = "send_click failing_hub ''hi''"
  have s: "selected_starter three_exchanges = None"
    by (simp add: three_exchanges_value)
  have p: "processes_input ?w three_exchanges"
    by (simp add: send_click_processes s)
  have u: "user_input_of ?w three_exchanges = ''hi''"
    by (simp add: send_click_processes s)
  have m: "max_length_slider ?w = 1000"
    by (simp add: send_click_def)
  have l: "fst (load_chatbot (hub ?w)) = Some (loaded_tokenizer, failing_model)"
    by (rule load_toy_hubs)
  have t: "snd (generate_response_try loaded_tokenizer failing_model
          (model_chat_history three_exchanges) ''hi'' 1000) =
     Inl (Exn ''RuntimeError'' ''out of memory'')"
    by (simp add: generate_response_try_def Let_def loaded_tokenizer_def toy_tokenizer_def
        failing_model_def)
  show ?thesis
    using p l t u m
      send_appends_two_turns [of ?w three_exchanges
        "[send_click toy_hub ''one'', send_click toy_hub ''two'', send_click toy_hub ''three'']"]
    by auto
qed

text \<open>
  C5. When \<open>load_chatbot\<close> returns no tokenizer and model, a send appends no turn, leaves
  the turn list, the token history and the counter as they were (the whole store, when no
  starter is pending), requests no rerun, and shows the error of line 210.
\<close>

theorem load_failure:
  assumes "processes_input w s" and "fst (load_chatbot (hub w)) = None"
  shows "chat_history (state (interact w s)) = chat_history s \<and>
         model_chat_history (state (interact w s)) = model_chat_history s \<and>
         conversation_count (state (interact w s)) = conversation_count s \<and>
         (selected_starter s = None \<longrightarrow> state (interact w s) = s) \<and>
         \<not> rerun (interact w s) \<and>
         St_error ''Failed to load the chatbot model. Please refresh the page and try again.''
           \<in> set (shown (interact w s))"
proof -
  from assms(2) obtain loading where "load_chatbot (hub w) = (None, loading)"
    by (cases "load_chatbot (hub w)") simp
  from main_send_not_loaded [OF assms(1) this] show ?thesis
    by (simp add: interact_def Let_def)
qed

theorem load_failure_witness:
  "processes_input (send_click offline_hub ''hi'') three_exchanges \<and>
   fst (load_chatbot (hub (send_click offline_hub ''hi''))) = None \<and>
   state (interact (send_click offline_hub ''hi'') three_exchanges) = three_exchanges \<and>
   St_error ''Failed to load the chatbot model. Please refresh the page and try again.''
     \<in> set (shown (interact (send_click offline_hub ''hi'') three_exchanges))"
proof -
  let ?w = "send_click offline_hub ''hi''"
  have s: "selected_starter three_exchanges = None"
    by (simp add: three_exchanges_def state_interact)
  have p: "processes_input ?w three_exchanges"
    by (simp add: processes_input_def user_input_of_def s) (simp add: send_click_def)
  have l: "fst (load_chatbot (hub ?w)) = None"
    by (simp add: send_click_def offline_hub_def load_chatbot_def)
  show ?thesis
    using p l s load_failure [OF p l] by simp
qed

subsection \<open>Clearing the conversation\<close>

text \<open>
  C4. From any session state, the interaction started by a click on the clear-history
  button leaves an empty turn list, an absent token history and a counter of 0, and the
  page it shows has the message-count metric at 0.
\<close>

theorem clear_history_resets:
  "clear_chat_history_button w \<Longrightarrow>
     chat_history (state (interact w s)) = [] \<and>
     model_chat_history (state (interact w s)) = None \<and>
     conversation_count (state (interact w s)) = 0 \<and>
     shown (interact w s) = [St_metric ''Messages Exchanged'' 0]"
  by (simp add: interact_def Let_def state_main_clear main_released)

theorem clear_history_resets_witness:
  "clear_chat_history_button clear_click \<and>
   length (chat_history three_exchanges) = 6 \<and>
   chat_history (state (interact clear_click three_exchanges)) = [] \<and>
   model_chat_history (state (interact clear_click three_exchanges)) = None \<and>
   conversation_count (state (interact clear_click three_exchanges)) = 0 \<and>
   shown (interact clear_click three_exchanges) = [St_metric ''Messages Exchanged'' 0]"
proof -
  have c: "clear_chat_history_button clear_click"
    by (simp add: clear_click_def)
  have l: "length (chat_history three_exchanges) = 6"
    by (simp add: three_exchanges_def state_interact main_def Let_def send_click_def
        load_chatbot_def toy_hub_def generate_response_def generate_response_try_def
        toy_tokenizer_def toy_model_def fresh_session_def get_sample_conversations_def)
  show ?thesis
    using c l clear_history_resets [OF c, of three_exchanges] by simp
qed

subsection \<open>The response generator\<close>

text \<open>
  C7. When the tokenizer has an end-of-turn marker, the generator encodes the user text with
  the marker appended: what that call raises becomes the apology, and no other answer of
  \<open>encode\<close> matters to the result. When the encoding returns, the result is what
  \<open>model.generate\<close> and then \<open>decode\<close> answer on the prior history followed by the new
  tokens, or on the new tokens alone when the history is absent; no answer of the model on
  another input matters.
\<close>

theorem generation_input:
  assumes "eos_token tokenizer = Some eos"
  shows "(\<forall>e. encode tokenizer (user_input @ eos) = Inl e \<longrightarrow>
            generate_response tokenizer model history user_input max_length =
              (''Sorry, I encountered an error: '' @ exn_str e, None)) \<and>
         (\<forall>encode'. encode' (user_input @ eos) = encode tokenizer (user_input @ eos) \<longrightarrow>
            generate_response (tokenizer\<lparr>encode := encode'\<rparr>) model history user_input
              max_length =
            generate_response tokenizer model history user_input max_length) \<and>
         (\<forall>new. encode tokenizer (user_input @ eos) = Inr new \<longrightarrow>
            generate_response tokenizer model history user_input max_length =
              (case generate model (case history of Some h \<Rightarrow> h @ new | None \<Rightarrow> new)
                      (generation_kwargs tokenizer max_length) of
                 Inl e \<Rightarrow> (''Sorry, I encountered an error: '' @ exn_str e, None)
               | Inr ids \<Rightarrow>
                   (case decode tokenizer
                           (drop (length (case history of Some h \<Rightarrow> h @ new | None \<Rightarrow> new))
                              ids) True of
                      Inl e \<Rightarrow> (''Sorry, I encountered an error: '' @ exn_str e, None)
                    | Inr response \<Rightarrow> (response, Some ids)))) \<and>
         (\<forall>new model'.
            encode tokenizer (user_input @ eos) = Inr new \<and>
            (\<forall>kwargs. generate model' (case history of Some h \<Rightarrow> h @ new | None \<Rightarrow> new) kwargs =
                       generate model (case history of Some h \<Rightarrow> h @ new | None \<Rightarrow> new) kwargs)
            \<longrightarrow>
            generate_response tokenizer model' history user_input max_length =
            generate_response tokenizer model history user_input max_length)"
proof -
  have enc: "generate_response (tokenizer\<lparr>encode := encode'\<rparr>) model history user_input
        max_length =
      generate_response tokenizer model history user_input max_length"
    if e: "encode' (user_input @ eos) = encode tokenizer (user_input @ eos)" for encode'
  proof (cases "encode tokenizer (user_input @ eos)")
    case (Inl x)
    with assms e show ?thesis
      by (simp add: generate_response_encode_raises [where eos = eos and e = x])
  next
    case (Inr new)
    with assms e show ?thesis
      by (simp add: generate_response_eq [where eos = eos and new = new]
          generation_kwargs_def split: sum.splits)
  qed
  from assms enc show ?thesis
    by (simp add: generate_response_encode_raises [where eos = eos]
        generate_response_eq [where eos = eos])
qed

theorem generation_input_witness:
  "eos_token toy_tokenizer = Some ''<|endoftext|>'' \<and>
   encode toy_tokenizer (''hi'' @ ''<|endoftext|>'') = Inr [15, 0] \<and>
   generate toy_model ([1, 2] @ [15, 0]) (generation_kwargs toy_tokenizer 1000) =
     Inr [1, 2, 15, 0, 7, 0] \<and>
   generate_response toy_tokenizer toy_model (Some [1, 2]) ''hi'' 1000 =
     (''hello'', Some [1, 2, 15, 0, 7, 0]) \<and>
   generate failing_model ([1, 2] @ [15, 0]) (generation_kwargs toy_tokenizer 1000) =
     Inl (Exn ''RuntimeError'' ''out of memory'') \<and>
   generate_response toy_tokenizer failing_model (Some [1, 2]) ''hi'' 1000 =
     (''Sorry, I encountered an error: out of memory'', None) \<and>
   generate toy_model [15, 0] (generation_kwargs toy_tokenizer 1000) = Inr [15, 0, 7, 0] \<and>
   generate_response toy_tokenizer toy_model None ''hi'' 1000 =
     (''hello'', Some [15, 0, 7, 0])"
proof -
  have e: "eos_token toy_tokenizer = Some ''<|endoftext|>''"
    by (simp add: toy_tokenizer_def)
  have n: "encode toy_tokenizer (''hi'' @ ''<|endoftext|>'') = Inr [15, 0]"
    by (simp add: toy_tokenizer_def)
  have d: "decode toy_tokenizer ids True = Inr ''hello''" for ids
    by (simp add: toy_tokenizer_def)
  have g: "generate toy_model ids kwargs = Inr (ids @ [7, 0])" for ids kwargs
    by (simp add: toy_model_def)
  have f: "generate failing_model ids kwargs = Inl (Exn ''RuntimeError'' ''out of memory'')"
    for ids kwargs
    by (simp add: failing_model_def)
  show ?thesis
    using e n
      generation_input [OF e, of "''hi''" toy_model "Some [1, 2]" 1000]
      generation_input [OF e, of "''hi''" failing_model "Some [1, 2]" 1000]
      generation_input [OF e, of "''hi''" toy_model None 1000]
    by (simp add: d g f)
qed

text \<open>
  C8. The generation call carries the maximum length of the caller, 3 beams, no repeated
  2-gram, temperature 0.7, sampling on, and the pad and eos token ids of the tokenizer: the
  result is what the model answers under these keyword arguments, and a model that answers
  the same under them gives the same result, whatever it answers under others.
\<close>

theorem decoding_policy_fixed:
  "(\<forall>model'.
      (\<forall>ids. generate model' ids
                \<lparr>kw_max_length = max_length, kw_num_beams = 3, kw_no_repeat_ngram_size = 2,
                 kw_temperature = 7 / 10, kw_do_sample = True,
                 kw_pad_token_id = pad_token_id tokenizer,
                 kw_eos_token_id = eos_token_id tokenizer\<rparr> =
              generate model ids
                \<lparr>kw_max_length = max_length, kw_num_beams = 3, kw_no_repeat_ngram_size = 2,
                 kw_temperature = 7 / 10, kw_do_sample = True,
                 kw_pad_token_id = pad_token_id tokenizer,
                 kw_eos_token_id = eos_token_id tokenizer\<rparr>) \<longrightarrow>
      generate_response tokenizer model' history user_input max_length =
      generate_response tokenizer model history user_input max_length) \<and>
   (\<forall>eos new.
      eos_token tokenizer = Some eos \<and> encode tokenizer (user_input @ eos) = Inr new \<longrightarrow>
      generate_response tokenizer model history user_input max_length =
        (case generate model (case history of Some h \<Rightarrow> h @ new | None \<Rightarrow> new)
                \<lparr>kw_max_length = max_length, kw_num_beams = 3, kw_no_repeat_ngram_size = 2,
                 kw_temperature = 7 / 10, kw_do_sample = True,
                 kw_pad_token_id = pad_token_id tokenizer,
                 kw_eos_token_id = eos_token_id tokenizer\<rparr> of
           Inl e \<Rightarrow> (''Sorry, I encountered an error: '' @ exn_str e, None)
         | Inr ids \<Rightarrow>
             (case decode tokenizer
                     (drop (length (case history of Some h \<Rightarrow> h @ new | None \<Rightarrow> new)) ids)
                     True of
                Inl e \<Rightarrow> (''Sorry, I encountered an error: '' @ exn_str e, None)
              | Inr response \<Rightarrow> (response, Some ids))))"
proof -
  let ?policy = "\<lparr>kw_max_length = max_length, kw_num_beams = 3, kw_no_repeat_ngram_size = 2,
                 kw_temperature = 7 / 10, kw_do_sample = True,
                 kw_pad_token_id = pad_token_id tokenizer,
                 kw_eos_token_id = eos_token_id tokenizer\<rparr>"
  have p: "generation_kwargs tokenizer max_length = ?policy"
    by (simp add: generation_kwargs_def)
  have same: "generate_response tokenizer model' history user_input max_length =
      generate_response tokenizer model history user_input max_length"
    if a: "\<forall>ids. generate model' ids ?policy = generate model ids ?policy" for model'
  proof (cases "eos_token tokenizer")
    case None
    then show ?thesis by (simp add: generate_response_no_eos)
  next
    case (Some eos)
    show ?thesis
    proof (cases "encode tokenizer (user_input @ eos)")
      case (Inl e)
      with Some show ?thesis
        by (simp add: generate_response_encode_raises [where eos = eos and e = e])
    next
      case (Inr new)
      with Some a show ?thesis
        by (simp add: generate_response_eq [where eos = eos and new = new] p)
    qed
  qed
  have eq: "generate_response tokenizer model history user_input max_length =
        (case generate model (case history of Some h \<Rightarrow> h @ new | None \<Rightarrow> new) ?policy of
           Inl e \<Rightarrow> (''Sorry, I encountered an error: '' @ exn_str e, None)
         | Inr ids \<Rightarrow>
             (case decode tokenizer
                     (drop (length (case history of Some h \<Rightarrow> h @ new | None \<Rightarrow> new)) ids)
                     True of
                Inl e \<Rightarrow> (''Sorry, I encountered an error: '' @ exn_str e, None)
              | Inr response \<Rightarrow> (response, Some ids)))"
    if "eos_token tokenizer = Some eos" and "encode tokenizer (user_input @ eos) = Inr new"
    for eos new
    using generate_response_eq [OF that] by (simp add: p)
  from same eq show ?thesis by blast
qed

theorem decoding_policy_fixed_witness:
  "eos_token toy_tokenizer = Some ''<|endoftext|>'' \<and>
   encode toy_tokenizer (''hi'' @ ''<|endoftext|>'') = Inr [15, 0] \<and>
   generate toy_model [1, 2, 15, 0]
     \<lparr>kw_max_length = 1000, kw_num_beams = 3, kw_no_repeat_ngram_size = 2,
      kw_temperature = 7 / 10, kw_do_sample = True,
      kw_pad_token_id = None, kw_eos_token_id = Some 0\<rparr> = Inr [1, 2, 15, 0, 7, 0] \<and>
   generate_response toy_tokenizer toy_model (Some [1, 2]) ''hi'' 1000 =
     (''hello'', Some [1, 2, 15, 0, 7, 0])"
proof -
  have e: "eos_token toy_tokenizer = Some ''<|endoftext|>''"
    by (simp add: toy_tokenizer_def)
  have n: "encode toy_tokenizer (''hi'' @ ''<|endoftext|>'') = Inr [15, 0]"
    by (simp add: toy_tokenizer_def)
  have i: "pad_token_id toy_tokenizer = None" "eos_token_id toy_tokenizer = Some 0"
    by (simp_all add: toy_tokenizer_def)
  have d: "decode toy_tokenizer ids True = Inr ''hello''" for ids
    by (simp add: toy_tokenizer_def)
  have g: "generate toy_model ids kwargs = Inr (ids @ [7, 0])" for ids kwargs
    by (simp add: toy_model_def)
  show ?thesis
    using e n decoding_policy_fixed [of 1000 toy_tokenizer toy_model "Some [1, 2]" "''hi''"]
    by (simp add: i d g)
qed

text \<open>
  C6. When the \<open>try\<close> block returns, the response is what \<open>decode\<close> returns, with
  \<open>skip_special_tokens\<close> on, for the tokens of the generation output beyond the length
  of the generation input; no other decoding takes place. Removing the special tokens is
  the work of the tokenizer under that flag: whatever every text decoded with the flag on
  satisfies (\<open>special_free\<close>), the response satisfies.
\<close>

theorem response_decoded_from_new_span:
  assumes "snd (generate_response_try tokenizer model history user_input max_length) =
             Inr (response, ids)"
    and "\<forall>span text. decode tokenizer span True = Inr text \<longrightarrow> special_free text"
  shows "(\<exists>eos new.
            eos_token tokenizer = Some eos \<and>
            encode tokenizer (user_input @ eos) = Inr new \<and>
            generate model (case history of Some h \<Rightarrow> h @ new | None \<Rightarrow> new)
              (generation_kwargs tokenizer max_length) = Inr ids \<and>
            decode tokenizer
              (drop (length (case history of Some h \<Rightarrow> h @ new | None \<Rightarrow> new)) ids) True =
              Inr response \<and>
            (\<forall>span skip. Decode span skip \<in> set (fst (generate_response_try tokenizer model
                 history user_input max_length)) \<longrightarrow>
               span = drop (length (case history of Some h \<Rightarrow> h @ new | None \<Rightarrow> new)) ids \<and>
               skip)) \<and>
         fst (generate_response tokenizer model history user_input max_length) = response \<and>
         special_free response"
proof -
  have r: "fst (generate_response tokenizer model history user_input max_length) = response"
    using assms(1) by (simp add: generate_response_def)
  show ?thesis
  proof (cases rule: try_cases [where tokenizer = tokenizer and model = model
        and history = history and user_input = user_input and max_length = max_length])
    case (returns eos new ids' response')
    with assms(1) have "ids' = ids" "response' = response" by simp_all
    with returns assms(2) r show ?thesis by auto
  qed (use assms(1) in simp_all)
qed

theorem response_decoded_from_new_span_witness:
  "snd (generate_response_try toy_tokenizer toy_model (Some [1, 2]) ''hi'' 1000) =
     Inr (''hello'', [1, 2, 15, 0, 7, 0]) \<and>
   (\<forall>span. decode toy_tokenizer span True = Inr ''hello'') \<and>
   decode toy_tokenizer (drop (length [1, 2, 15, 0 :: nat]) [1, 2, 15, 0, 7, 0]) True =
     Inr ''hello'' \<and>
   fst (generate_response toy_tokenizer toy_model (Some [1, 2]) ''hi'' 1000) = ''hello'' \<and>
   \<not> sublist ''<|endoftext|>'' ''hello''"
proof -
  have t: "snd (generate_response_try toy_tokenizer toy_model (Some [1, 2]) ''hi'' 1000) =
     Inr (''hello'', [1, 2, 15, 0, 7, 0])"
    by (simp add: generate_response_try_def Let_def toy_tokenizer_def toy_model_def)
  have n: "\<not> sublist ''<|endoftext|>'' ''hello''"
    using sublist_length_le [of "''<|endoftext|>''" "''hello''"] by auto
  have d: "\<forall>span text. decode toy_tokenizer span True = Inr text \<longrightarrow>
      \<not> sublist ''<|endoftext|>'' text"
    using n by (auto simp add: toy_tokenizer_def)
  have v: "decode toy_tokenizer (drop (length [1, 2, 15, 0 :: nat]) [1, 2, 15, 0, 7, 0]) True =
     Inr ''hello''"
    by (simp add: toy_tokenizer_def)
  have a: "\<forall>span. decode toy_tokenizer span True = Inr ''hello''"
    by (simp add: toy_tokenizer_def)
  show ?thesis
    using t a v n
      response_decoded_from_new_span [OF t d]
    by blast
qed




text \<open>
  C9, as amended. The claim as written says that no exception reaches the caller; an
  exception outside \<open>Exception\<close> does. What holds: no instance of \<open>Exception\<close> leaves the
  function, and an exception that leaves it is one outside \<open>Exception\<close> that the encoding,
  the generation or the decoding raised. When the function returns, the history is absent
  exactly when an exception was caught, and a history that is present is the output of the
  generation call.
\<close>

theorem generate_response_total:
  "(\<forall>e. fst (generate_response_any tokenizer model history
          user_input max_length world) \<noteq> Inl (Exception e)) \<and>
   (\<forall>x. fst (generate_response_any tokenizer model history
          user_input max_length world) = Inl x \<longrightarrow>
      \<not> is_Exception x \<and>
      (\<exists>eos. any_eos_token tokenizer = Some eos \<and>
         ((\<exists>world1. any_encode tokenizer (user_input @ eos) world = (Inl x, world1)) \<or>
          (\<exists>new world1. any_encode tokenizer (user_input @ eos) world = (Inr new, world1) \<and>
             ((\<exists>world2. any_generate model (case history of Some h \<Rightarrow> h @ new | None \<Rightarrow> new) (any_generation_kwargs tokenizer max_length) world1 = (Inl x, world2)) \<or>
              (\<exists>ids world2 world3.
                 any_generate model (case history of Some h \<Rightarrow> h @ new | None \<Rightarrow> new) (any_generation_kwargs tokenizer max_length) world1 = (Inr ids, world2) \<and>
                 any_decode tokenizer (drop (length (case history of Some h \<Rightarrow> h @ new | None \<Rightarrow> new)) ids) True world2 =
                   (Inl x, world3))))))) \<and>
   (\<forall>response new_history.
      fst (generate_response_any tokenizer model history
          user_input max_length world) = Inr (response, new_history) \<longrightarrow>
      (new_history = None \<longleftrightarrow>
         any_eos_token tokenizer = None \<or>
         (\<exists>eos. any_eos_token tokenizer = Some eos \<and>
            ((\<exists>e world1. any_encode tokenizer (user_input @ eos) world =
                 (Inl (Exception e), world1)) \<or>
             (\<exists>new world1. any_encode tokenizer (user_input @ eos) world = (Inr new, world1) \<and>
                ((\<exists>e world2. any_generate model (case history of Some h \<Rightarrow> h @ new | None \<Rightarrow> new) (any_generation_kwargs tokenizer max_length) world1 =
                     (Inl (Exception e), world2)) \<or>
                 (\<exists>ids world2 e world3.
                    any_generate model (case history of Some h \<Rightarrow> h @ new | None \<Rightarrow> new) (any_generation_kwargs tokenizer max_length) world1 = (Inr ids, world2) \<and>
                    any_decode tokenizer (drop (length (case history of Some h \<Rightarrow> h @ new | None \<Rightarrow> new)) ids) True world2 =
                      (Inl (Exception e), world3)))))))) \<and>
   (\<forall>response ids.
      fst (generate_response_any tokenizer model history
          user_input max_length world) = Inr (response, Some ids) \<longrightarrow>
      (\<exists>eos new world1 world2 world3.
         any_eos_token tokenizer = Some eos \<and>
         any_encode tokenizer (user_input @ eos) world = (Inr new, world1) \<and>
         any_generate model (case history of Some h \<Rightarrow> h @ new | None \<Rightarrow> new) (any_generation_kwargs tokenizer max_length) world1 = (Inr ids, world2) \<and>
         any_decode tokenizer (drop (length (case history of Some h \<Rightarrow> h @ new | None \<Rightarrow> new)) ids) True world2 = (Inr response, world3)))"
proof (cases rule: any_cases [where tokenizer = tokenizer and model = model
      and history = history and user_input = user_input and max_length = max_length
      and world = world])
  case no_eos
  then show ?thesis by simp
next
  case (encode_raises eos x world1)
  then show ?thesis by (cases x) (simp_all add: except_Exception_def)
next
  case (generate_raises eos new world1 x world2)
  then show ?thesis by (cases x) (simp_all add: except_Exception_def)
next
  case (decode_raises eos new world1 ids world2 x world3)
  then show ?thesis by (cases x) (simp_all add: except_Exception_def)
next
  case (returns eos new world1 ids world2 response world3)
  then show ?thesis by simp
qed

theorem generate_response_total_witness:
  "generate_response_any counting_tokenizer flaky_model (Some [1, 2]) ''hi'' 1000 0 =
     (Inr (''Sorry, I encountered an error: out of memory'', None), 2) \<and>
   any_generate flaky_model [1, 2, 15, 0] (any_generation_kwargs counting_tokenizer 1000) 1 =
     (Inl (Exception (Exn ''RuntimeError'' ''out of memory'')), 2) \<and>
   generate_response_any counting_tokenizer flaky_model (Some [1, 2]) ''hi'' 1000 5 =
     (Inr (''hello'', Some [1, 2, 15, 0, 7, 0]), 8) \<and>
   any_generate flaky_model [1, 2, 15, 0] (any_generation_kwargs counting_tokenizer 1000) 6 =
     (Inr [1, 2, 15, 0, 7, 0], 7)"
proof -
  have a: "generate_response_any counting_tokenizer flaky_model (Some [1, 2]) ''hi'' 1000 0 =
     (Inr (''Sorry, I encountered an error: out of memory'', None), 2)"
    by (simp add: generate_response_any_def counting_tokenizer_def flaky_model_def
        except_Exception_def Let_def)
  have b: "generate_response_any counting_tokenizer flaky_model (Some [1, 2]) ''hi'' 1000 5 =
     (Inr (''hello'', Some [1, 2, 15, 0, 7, 0]), 8)"
    by (simp add: generate_response_any_def counting_tokenizer_def flaky_model_def
        except_Exception_def Let_def)
  have g1: "any_generate flaky_model [1, 2, 15, 0]
      (any_generation_kwargs counting_tokenizer 1000) 1 =
     (Inl (Exception (Exn ''RuntimeError'' ''out of memory'')), 2)"
    by (simp add: flaky_model_def)
  have g2: "any_generate flaky_model [1, 2, 15, 0]
      (any_generation_kwargs counting_tokenizer 1000) 6 = (Inr [1, 2, 15, 0, 7, 0], 7)"
    by (simp add: flaky_model_def)
  show ?thesis
    using a b g1 g2
      generate_response_total [of counting_tokenizer flaky_model "Some [1, 2]" "''hi''" 1000 0]
      generate_response_total [of counting_tokenizer flaky_model "Some [1, 2]" "''hi''" 1000 5]
    by simp
qed

text \<open>
  The counterexample to C9 as written: the generation exits, and the exit leaves the
  function.
\<close>

theorem generate_response_total_counterexample:
  "any_eos_token counting_tokenizer = Some ''<|endoftext|>'' \<and>
   any_encode counting_tokenizer (''hi'' @ ''<|endoftext|>'') 0 = (Inr [15, 0], 1) \<and>
   any_generate exiting_model [1, 2, 15, 0] (any_generation_kwargs counting_tokenizer 1000) 1 =
     (Inl (BaseException (Exn ''SystemExit'' ''1'')), 2) \<and>
   generate_response_any counting_tokenizer exiting_model (Some [1, 2]) ''hi'' 1000 0 =
     (Inl (BaseException (Exn ''SystemExit'' ''1'')), 2)"
  by (simp add: generate_response_any_def counting_tokenizer_def exiting_model_def
      except_Exception_def Let_def)

end
